theory Spec2Isabelle
  imports Main
begin

section \<open>gscloud: the kubernetes cluster commands (cmd/kubernetes.go)\<close>

text \<open>
  The two commands of \<^verbatim>\<open>cmd/kubernetes.go\<close>, \<^verbatim>\<open>save-kubeconfig\<close> and
  \<^verbatim>\<open>exec-credential\<close>, are embedded as functions that pass an explicit world
  (files, the two output streams, the requests sent to the provider, the kubeconfig on
  disk). Everything a command reads but does not change (globals, flags of the process,
  the clock, the provider's answers, failures of the operating system) is in an
  environment record. A run either returns, leaves the process through
  \<^verbatim>\<open>os.Exit\<close>, or panics on a nil pointer.
\<close>

subsection \<open>Errors, runs, time\<close>

datatype err =
    ENOENT
  | OSError string
  | CorruptInputError
  | JSONError
  | YAMLError
  | ConfigError string
  | HTTPError string

datatype 'a run = Returns 'a | Exits nat | Panics

text \<open>
  A \<^verbatim>\<open>time.Time\<close> is the number of nanoseconds since Go's zero time (January 1, year 1,
  00:00:00 UTC), so \<^verbatim>\<open>Time.IsZero\<close> is equality with 0 and \<^verbatim>\<open>t.Before(u)\<close> is \<open>t < u\<close>.
  A time parsed from a file may lie before the zero time; the clock of the machine never
  does, so the clock of the environment is a natural number.
\<close>

type_synonym time = int

definition Hour :: int where
  "Hour = 3600 * 1000000000"

definition time_Add :: "time \<Rightarrow> int \<Rightarrow> time" where
  "time_Add t d = t + d"

definition time_Before :: "time \<Rightarrow> time \<Rightarrow> bool" where
  "time_Before t u = (t < u)"

text \<open>\<^verbatim>\<open>(*metav1.Time).IsZero\<close>: a nil pointer is zero.\<close>

definition IsZero :: "time option \<Rightarrow> bool" where
  "IsZero t = (case t of None \<Rightarrow> True | Some t' \<Rightarrow> t' = 0)"

subsection \<open>encoding/base64: StdEncoding.DecodeString\<close>

text \<open>
  The standard alphabet with \<^verbatim>\<open>=\<close> padding, not strict: carriage returns and line feeds
  are skipped, the input is read in quanta of four characters, padding is accepted only
  at the end of a quantum and only at the end of the input, and the bits left over in a
  padded quantum are not checked. On corrupt input the bytes decoded so far are returned
  together with the error; the offset the error carries is left out.
\<close>

type_synonym bytes = string

definition decodeMap :: "char \<Rightarrow> nat option" where
  "decodeMap c =
     (let n = (of_char c :: nat) in
      if 65 \<le> n \<and> n \<le> 90 then Some (n - 65)
      else if 97 \<le> n \<and> n \<le> 122 then Some (n - 71)
      else if 48 \<le> n \<and> n \<le> 57 then Some (n + 4)
      else if n = 43 then Some 62
      else if n = 47 then Some 63
      else None)"

definition padChar :: char where
  "padChar = CHR ''=''"

definition quantum1 :: "nat \<Rightarrow> nat \<Rightarrow> bytes" where
  "quantum1 a b = [char_of (a * 4 + b div 16)]"

definition quantum2 :: "nat \<Rightarrow> nat \<Rightarrow> nat \<Rightarrow> bytes" where
  "quantum2 a b c = quantum1 a b @ [char_of ((b mod 16) * 16 + c div 4)]"

definition quantum3 :: "nat \<Rightarrow> nat \<Rightarrow> nat \<Rightarrow> nat \<Rightarrow> bytes" where
  "quantum3 a b c d = quantum2 a b c @ [char_of ((c mod 4) * 64 + d)]"

fun decodeQuanta :: "string \<Rightarrow> bytes \<times> err option" where
  "decodeQuanta [] = ([], None)"
| "decodeQuanta (a # b # c # d # rest) =
     (case (decodeMap a, decodeMap b) of
        (Some x, Some y) \<Rightarrow>
          (case decodeMap c of
             Some z \<Rightarrow>
               (case decodeMap d of
                  Some v \<Rightarrow>
                    (let (out, e) = decodeQuanta rest in (quantum3 x y z v @ out, e))
                | None \<Rightarrow>
                    if d = padChar
                    then (quantum2 x y z, if rest = [] then None else Some CorruptInputError)
                    else ([], Some CorruptInputError))
           | None \<Rightarrow>
               if c = padChar \<and> d = padChar
               then (quantum1 x y, if rest = [] then None else Some CorruptInputError)
               else ([], Some CorruptInputError))
      | _ \<Rightarrow> ([], Some CorruptInputError))"
| "decodeQuanta _ = ([], Some CorruptInputError)"

definition b64_DecodeString :: "string \<Rightarrow> bytes \<times> err option" where
  "b64_DecodeString s =
     decodeQuanta (filter (\<lambda>c. c \<noteq> CHR 0x0A \<and> c \<noteq> CHR 0x0D) s)"

subsection \<open>The credential plugin's record (client-go, clientauthentication/v1beta1)\<close>

record ExecCredentialStatus =
  ExpirationTimestamp :: "time option"
  Token :: string
  ClientCertificateData :: string
  ClientKeyData :: string

record ExecCredential =
  Kind :: string
  APIVersion :: string
  Status :: "ExecCredentialStatus option"

text \<open>\<^verbatim>\<open>clientauth.SchemeGroupVersion.String()\<close>\<close>

definition SchemeGroupVersion :: string where
  "SchemeGroupVersion = ''client.authentication.k8s.io/v1beta1''"

subsection \<open>The provider's bundle\<close>

text \<open>
  Modelled from the spec: the type \<^verbatim>\<open>kubeConfig\<close> is declared outside
  \<^verbatim>\<open>cmd/kubernetes.go\<close>. The spec's CredentialBundle is an ordered
  list of cluster entries (identifier, server URL, base64 certificate authority data), an
  ordered list of user entries (identifier, base64 client certificate data, base64 client
  key data) and the name of the current context; the fields are named after the
  selectors the source uses (\<^verbatim>\<open>c.Name\<close>, \<^verbatim>\<open>c.Cluster.Server\<close>,
  \<^verbatim>\<open>u.User.ClientKeyData\<close>, ...).
\<close>

record kubeConfigCluster =
  c_Name :: string
  c_Server :: string
  c_CertificateAuthorityData :: string

record kubeConfigUser =
  u_Name :: string
  u_ClientCertificateData :: string
  u_ClientKeyData :: string

record kubeConfig =
  kc_Clusters :: "kubeConfigCluster list"
  kc_Users :: "kubeConfigUser list"
  kc_CurrentContext :: string

definition zero_kubeConfig :: kubeConfig where
  "zero_kubeConfig = \<lparr>kc_Clusters = [], kc_Users = [], kc_CurrentContext = []\<rparr>"

text \<open>
  A YAML text is represented by what \<^verbatim>\<open>yaml.Unmarshal\<close> makes of it: the value it
  decodes to, or, for a text it reports an error on, the part it had filled in by then.
\<close>

datatype yaml_text = YAML kubeConfig | BadYAML kubeConfig

definition yaml_Unmarshal :: "yaml_text \<Rightarrow> kubeConfig \<times> err option" where
  "yaml_Unmarshal t = (case t of YAML kc \<Rightarrow> (kc, None) | BadYAML kc \<Rightarrow> (kc, Some YAMLError))"

text \<open>\<^verbatim>\<open>endpoints.PaaSService\<close>, reduced to \<^verbatim>\<open>Properties.Credentials[i].KubeConfig\<close>.\<close>

record PaaSService =
  Credentials :: "yaml_text list"

datatype http_method = MethodPatch | MethodGet

record request =
  uri :: string
  "method" :: http_method

subsection \<open>Files, streams, environment\<close>

text \<open>
  The content of a file is represented by what \<^verbatim>\<open>json.Decoder.Decode\<close> makes of it:
  \<open>Raw s\<close> is a content the decoder reports an error on (the empty file is one),
  \<open>JSON v\<close> a text it decodes to \<open>v\<close>, where \<open>None\<close> is the text \<^verbatim>\<open>null\<close>, which
  leaves the pointer nil.
\<close>

datatype file_content = Raw string | JSON "ExecCredential option"

datatype line = ErrLine err | TextLine string | JSONDoc ExecCredential

datatype syscall =
    SysOpen | SysRemove | SysMkdirAll | SysOpenFile | SysWrite | SysStat | SysCreate
  | SysLoadConfig | SysModifyConfig

text \<open>The kubeconfig structure of client-go (\<^verbatim>\<open>clientcmdapi\<close>), reduced to the fields the source sets.\<close>

record Cluster =
  cl_Server :: string
  cl_CertificateAuthorityData :: bytes

record ExecConfig =
  ex_Command :: string
  ex_Args :: "string list"
  ex_APIVersion :: string

record AuthInfo =
  ai_ClientCertificate :: string
  ai_ClientCertificateData :: bytes
  ai_ClientKey :: string
  ai_ClientKeyData :: bytes
  ai_Exec :: "ExecConfig option"

record Context =
  ctx_Cluster :: string
  ctx_AuthInfo :: string

record Config =
  Clusters :: "string \<rightharpoonup> Cluster"
  AuthInfos :: "string \<rightharpoonup> AuthInfo"
  Contexts :: "string \<rightharpoonup> Context"
  CurrentContext :: string

definition zero_AuthInfo :: AuthInfo where
  "zero_AuthInfo =
     \<lparr>ai_ClientCertificate = [], ai_ClientCertificateData = [], ai_ClientKey = [],
      ai_ClientKeyData = [], ai_Exec = None\<rparr>"

text \<open>
  The world a command changes: the regular files by path, standard output and standard
  error line by line, the requests sent to the provider in order, and the kubeconfig that
  client-go's loading rules resolve to on disk.
\<close>

record world =
  files :: "string \<rightharpoonup> file_content"
  stdout :: "line list"
  stderr :: "line list"
  requests :: "request list"
  kubeconfig :: Config

text \<open>
  What a command reads and does not change: the globals \<^verbatim>\<open>cfgFile\<close>, \<^verbatim>\<open>account\<close> and
  \<^verbatim>\<open>apiPaasServiceBase\<close>, the results of \<^verbatim>\<open>cliPath()\<close> and of
  \<^verbatim>\<open>filepath.Abs(filepath.Dir(cfgFile))\<close>, the variable \<^verbatim>\<open>KUBECONFIG\<close>, client-go's
  default kubeconfig path, the clock (one reading for the whole run, which is what every
  \<^verbatim>\<open>time.Now()\<close> of the run returns), the directories, the provider's answer to each
  request, and for each call into the operating system or client-go on a path, the error
  it fails with, if it fails.
\<close>

record env =
  cfgFile :: string
  cfgDir :: string
  account :: string
  cliPath :: string
  apiPaasServiceBase :: string
  KUBECONFIG :: string
  RecommendedHomeFile :: string
  clock :: nat
  isDir :: "string \<Rightarrow> bool"
  http :: "request \<Rightarrow> err + PaaSService"
  faults :: "syscall \<Rightarrow> string \<Rightarrow> err option"

definition time_Now :: "env \<Rightarrow> time" where
  "time_Now e = int (clock e)"

definition println :: "line \<Rightarrow> world \<Rightarrow> world" where
  "println l w = w\<lparr>stdout := stdout w @ [l]\<rparr>"

definition eprintln :: "line \<Rightarrow> world \<Rightarrow> world" where
  "eprintln l w = w\<lparr>stderr := stderr w @ [l]\<rparr>"

text \<open>Sequencing: a run that exits or panics ends the command with the world it reached.\<close>

fun andThen :: "'a run \<times> world \<Rightarrow> ('a \<Rightarrow> world \<Rightarrow> 'b run \<times> world) \<Rightarrow> 'b run \<times> world" where
  "andThen (Returns a, w) f = f a w"
| "andThen (Exits n, w) f = (Exits n, w)"
| "andThen (Panics, w) f = (Panics, w)"

subsection \<open>os, path/filepath, encoding/json\<close>

text \<open>\<^verbatim>\<open>filepath.Join\<close> and \<^verbatim>\<open>path.Join\<close>, without the cleaning of the result.\<close>

fun path_Join :: "string list \<Rightarrow> string" where
  "path_Join [] = []"
| "path_Join [p] = p"
| "path_Join (p # ps) = p @ ''/'' @ path_Join ps"

definition os_IsNotExist :: "err \<Rightarrow> bool" where
  "os_IsNotExist e = (e = ENOENT)"

definition os_Open :: "env \<Rightarrow> string \<Rightarrow> world \<Rightarrow> err + file_content" where
  "os_Open e p w =
     (case faults e SysOpen p of
        Some x \<Rightarrow> Inl x
      | None \<Rightarrow> (case files w p of None \<Rightarrow> Inl ENOENT | Some c \<Rightarrow> Inr c))"

definition os_Remove :: "env \<Rightarrow> string \<Rightarrow> world \<Rightarrow> err option \<times> world" where
  "os_Remove e p w =
     (case faults e SysRemove p of
        Some x \<Rightarrow> (Some x, w)
      | None \<Rightarrow>
          (case files w p of
             None \<Rightarrow> (Some ENOENT, w)
           | Some c \<Rightarrow> (None, w\<lparr>files := (files w)(p := None)\<rparr>)))"

definition os_MkdirAll :: "env \<Rightarrow> string \<Rightarrow> err option" where
  "os_MkdirAll e p = faults e SysMkdirAll p"

text \<open>\<^verbatim>\<open>os.OpenFile\<close> with \<^verbatim>\<open>O_CREATE|O_RDWR|O_TRUNC\<close>, and \<^verbatim>\<open>os.Create\<close>: the file is there and empty.\<close>

definition os_OpenFile :: "env \<Rightarrow> string \<Rightarrow> world \<Rightarrow> err option \<times> world" where
  "os_OpenFile e p w =
     (case faults e SysOpenFile p of
        Some x \<Rightarrow> (Some x, w)
      | None \<Rightarrow> (None, w\<lparr>files := (files w)(p \<mapsto> Raw [])\<rparr>))"

definition os_Create :: "env \<Rightarrow> string \<Rightarrow> world \<Rightarrow> err option \<times> world" where
  "os_Create e p w =
     (case faults e SysCreate p of
        Some x \<Rightarrow> (Some x, w)
      | None \<Rightarrow> (None, w\<lparr>files := (files w)(p \<mapsto> Raw [])\<rparr>))"

text \<open>\<^verbatim>\<open>os.Stat\<close>: the error, or whether the path is a directory.\<close>

definition os_Stat :: "env \<Rightarrow> string \<Rightarrow> world \<Rightarrow> err + bool" where
  "os_Stat e p w =
     (case faults e SysStat p of
        Some x \<Rightarrow> Inl x
      | None \<Rightarrow>
          if files w p \<noteq> None then Inr False
          else if isDir e p then Inr True
          else Inl ENOENT)"

definition json_Decode :: "file_content \<Rightarrow> err + ExecCredential option" where
  "json_Decode c = (case c of Raw s \<Rightarrow> Inl JSONError | JSON v \<Rightarrow> Inr v)"

text \<open>\<^verbatim>\<open>json.NewEncoder(f).Encode(v)\<close> on the file opened at the path.\<close>

definition json_Encode :: "env \<Rightarrow> string \<Rightarrow> ExecCredential \<Rightarrow> world \<Rightarrow> err option \<times> world" where
  "json_Encode e p v w =
     (case faults e SysWrite p of
        Some x \<Rightarrow> (Some x, w)
      | None \<Rightarrow> (None, w\<lparr>files := (files w)(p \<mapsto> JSON (Some v))\<rparr>))"

text \<open>
  \<^verbatim>\<open>json.MarshalIndent\<close> of the record: the document, as one printed item. There is no
  value of the record that the encoder rejects.
\<close>

definition json_MarshalIndent :: "ExecCredential \<Rightarrow> err + line" where
  "json_MarshalIndent v = Inr (JSONDoc v)"

subsection \<open>The provider\<close>

text \<open>
  Modelled from the spec: the method \<^verbatim>\<open>request.execute\<close> is defined outside
  \<^verbatim>\<open>cmd/kubernetes.go\<close>. By the spec a call to the provider is
  synchronous, has no retry, and a single failed call aborts the enclosing operation with
  a diagnostic message; a call that succeeds yields the decoded answer.
\<close>

definition execute :: "env \<Rightarrow> request \<Rightarrow> world \<Rightarrow> PaaSService run \<times> world" where
  "execute e r w =
     (let w' = w\<lparr>requests := requests w @ [r]\<rparr> in
      case http e r of
        Inl x \<Rightarrow> (Exits 1, eprintln (ErrLine x) w')
      | Inr out \<Rightarrow> (Returns out, w'))"

definition fetchKubeConfigFromProvider :: "env \<Rightarrow> string \<Rightarrow> world \<Rightarrow> kubeConfig run \<times> world" where
  "fetchKubeConfigFromProvider e ident w =
     andThen
       (execute e
          \<lparr>uri = path_Join [apiPaasServiceBase e, ident, ''renew_credentials''], method = MethodPatch\<rparr>
          w)
       (\<lambda>_ w1.
          andThen
            (execute e \<lparr>uri = path_Join [apiPaasServiceBase e, ident], method = MethodGet\<rparr> w1)
            (\<lambda>paaSService w2.
               case Credentials paaSService of
                 [] \<Rightarrow> (Returns zero_kubeConfig, w2)
               | cred # _ \<Rightarrow>
                   (case yaml_Unmarshal cred of
                      (kc, None) \<Rightarrow> (Returns kc, w2)
                    | (kc, Some x) \<Rightarrow> (Returns kc, eprintln (ErrLine x) w2))))"

subsection \<open>The cache of exec-credential\<close>

definition kubeConfigCachePath :: "env \<Rightarrow> string" where
  "kubeConfigCachePath e = path_Join [cfgDir e, ''cache'', ''exec-credential'']"

definition cachedKubeConfigPath :: "env \<Rightarrow> string \<Rightarrow> string" where
  "cachedKubeConfigPath e ident = path_Join [kubeConfigCachePath e, ident @ ''.json'']"

text \<open>
  \<^verbatim>\<open>cacheKubeConfig\<close>: the first line reads \<^verbatim>\<open>execCredential.Status.ExpirationTimestamp\<close>,
  which panics when \<^verbatim>\<open>Status\<close> is nil.
\<close>

definition cacheKubeConfig :: "env \<Rightarrow> string \<Rightarrow> ExecCredential \<Rightarrow> world \<Rightarrow> err option run \<times> world" where
  "cacheKubeConfig e ident execCredential w =
     (case Status execCredential of
        None \<Rightarrow> (Panics, w)
      | Some st \<Rightarrow>
          if IsZero (ExpirationTimestamp st) then (Returns None, w)
          else
            (case os_MkdirAll e (kubeConfigCachePath e) of
               Some x \<Rightarrow> (Returns (Some x), w)
             | None \<Rightarrow>
                 (case os_OpenFile e (cachedKubeConfigPath e ident) w of
                    (Some x, w1) \<Rightarrow> (Returns (Some x), w1)
                  | (None, w1) \<Rightarrow>
                      (case json_Encode e (cachedKubeConfigPath e ident) execCredential w1 of
                         (r, w2) \<Rightarrow> (Returns r, w2)))))"

text \<open>
  \<^verbatim>\<open>loadCachedKubeConfig\<close> returns the pair of the source (the record or nil, the error or
  nil). Line 302 reads \<^verbatim>\<open>execCredential.Status.ExpirationTimestamp\<close> before line 304 tests
  \<^verbatim>\<open>execCredential.Status == nil\<close>: with a nil record or a nil \<^verbatim>\<open>Status\<close> the read panics.
\<close>

definition loadCachedKubeConfig ::
  "env \<Rightarrow> string \<Rightarrow> world \<Rightarrow> (ExecCredential option \<times> err option) run \<times> world" where
  "loadCachedKubeConfig e ident w =
     (let kubeConfigPath = cachedKubeConfigPath e ident in
      case os_Open e kubeConfigPath w of
        Inl x \<Rightarrow>
          if os_IsNotExist x then (Returns (None, None), w)
          else (Returns (None, Some x), w)
      | Inr f \<Rightarrow>
          (case json_Decode f of
             Inl x \<Rightarrow> (Returns (None, Some x), w)
           | Inr None \<Rightarrow> (Panics, w)
           | Inr (Some execCredential) \<Rightarrow>
               (case Status execCredential of
                  None \<Rightarrow> (Panics, w)
                | Some st \<Rightarrow>
                    (let timeStamp = ExpirationTimestamp st in
                     if Status execCredential = None \<or> IsZero timeStamp
                        \<or> (case timeStamp of
                              None \<Rightarrow> False
                            | Some t \<Rightarrow> time_Before t (time_Now e))
                     then (case os_Remove e kubeConfigPath w of
                             (x, w1) \<Rightarrow> (Returns (None, x), w1))
                     else (Returns (Some execCredential, None), w)))))"

subsection \<open>client-go: loading and writing the kubeconfig\<close>

text \<open>
  \<^verbatim>\<open>pathOptions.GetStartingConfig()\<close> and \<^verbatim>\<open>clientcmd.ModifyConfig\<close>, for path options
  whose global file is the given path: the first reads the kubeconfig on disk, the second
  replaces it; a call that fails changes nothing.
\<close>

definition GetStartingConfig :: "env \<Rightarrow> string \<Rightarrow> world \<Rightarrow> err + Config" where
  "GetStartingConfig e globalFile w =
     (case faults e SysLoadConfig globalFile of
        Some x \<Rightarrow> Inl x
      | None \<Rightarrow> Inr (kubeconfig w))"

definition ModifyConfig :: "env \<Rightarrow> string \<Rightarrow> Config \<Rightarrow> world \<Rightarrow> err option \<times> world" where
  "ModifyConfig e globalFile cfg w =
     (case faults e SysModifyConfig globalFile of
        Some x \<Rightarrow> (Some x, w)
      | None \<Rightarrow> (None, w\<lparr>kubeconfig := cfg\<rparr>))"

subsection \<open>exec-credential\<close>

text \<open>\<^verbatim>\<open>if err != nil { fmt.Fprintln(os.Stderr, err) }\<close> and \<^verbatim>\<open>if err != nil { fmt.Println(err) }\<close>\<close>

definition ifErr_Fprintln_Stderr :: "err option \<Rightarrow> world \<Rightarrow> world" where
  "ifErr_Fprintln_Stderr x w = (case x of None \<Rightarrow> w | Some y \<Rightarrow> eprintln (ErrLine y) w)"

definition ifErr_Println :: "err option \<Rightarrow> world \<Rightarrow> world" where
  "ifErr_Println x w = (case x of None \<Rightarrow> w | Some y \<Rightarrow> println (ErrLine y) w)"

text \<open>
  Lines 173 to 203 of the source: with no record from the cache, fetch the bundle and,
  if it has a user, build the record from the first one and cache it.
\<close>

definition renewExecCredential :: "env \<Rightarrow> string \<Rightarrow> world \<Rightarrow> ExecCredential option run \<times> world" where
  "renewExecCredential e clusterID w =
     andThen (fetchKubeConfigFromProvider e clusterID w)
       (\<lambda>newKubeConfig w1.
          if length (kc_Users newKubeConfig) \<noteq> 0 then
            (let u = kc_Users newKubeConfig ! 0;
                 (clientKeyData, err1) = b64_DecodeString (u_ClientKeyData u);
                 w2 = ifErr_Println err1 w1;
                 (clientCertificateData, err2) = b64_DecodeString (u_ClientCertificateData u);
                 w3 = ifErr_Println err2 w2;
                 execCredential =
                   \<lparr>Kind = ''ExecCredential'',
                    APIVersion = SchemeGroupVersion,
                    Status = Some
                      \<lparr>ExpirationTimestamp = Some (time_Add (time_Now e) Hour),
                       Token = [],
                       ClientCertificateData = clientCertificateData,
                       ClientKeyData = clientKeyData\<rparr>\<rparr>
             in andThen (cacheKubeConfig e clusterID execCredential w3)
                  (\<lambda>err3 w4. (Returns (Some execCredential), ifErr_Fprintln_Stderr err3 w4)))
          else (Returns None, w1))"

text \<open>The command, with its flags \<^verbatim>\<open>--kubeconfig\<close> and \<^verbatim>\<open>--cluster\<close>.\<close>

definition execCredentialCmd :: "env \<Rightarrow> string \<Rightarrow> string \<Rightarrow> world \<Rightarrow> unit run \<times> world" where
  "execCredentialCmd e kubeConfigFile clusterID w =
     (let GlobalFile = (if kubeConfigFile \<noteq> [] then kubeConfigFile else RecommendedHomeFile e);
          w1 = (case GetStartingConfig e GlobalFile w of
                  Inl x \<Rightarrow> eprintln (ErrLine x) w
                | Inr _ \<Rightarrow> w)
      in andThen (loadCachedKubeConfig e clusterID w1)
           (\<lambda>(cached, err) w2.
              andThen
                (case cached of
                   None \<Rightarrow> renewExecCredential e clusterID (ifErr_Fprintln_Stderr err w2)
                 | Some c \<Rightarrow> (Returns (Some c), ifErr_Fprintln_Stderr err w2))
                (\<lambda>execCredential w3.
                   case execCredential of
                     None \<Rightarrow>
                       (Returns (),
                        println
                          (TextLine
                             (''Error: Could not retrieve kubeconfig from provider for account: ''
                              @ '' '' @ account e))
                          w3)
                   | Some c \<Rightarrow>
                       (case json_MarshalIndent c of
                          Inl x \<Rightarrow> (Returns (), println (TextLine []) (eprintln (ErrLine x) w3))
                        | Inr doc \<Rightarrow> (Returns (), println doc w3)))))"

subsection \<open>save-kubeconfig\<close>

definition fileExists :: "env \<Rightarrow> string \<Rightarrow> world \<Rightarrow> bool run \<times> world" where
  "fileExists e filename w =
     (case os_Stat e filename w of
        Inl x \<Rightarrow> if os_IsNotExist x then (Returns False, w) else (Panics, w)
      | Inr d \<Rightarrow> (Returns (\<not> d), w))"

text \<open>
  Lines 46 to 60: the path of the kubeconfig, and the empty file created there when the
  path is known and no file is there. The result is the global file of the path options.
\<close>

definition prepareKubeconfigFile :: "env \<Rightarrow> string \<Rightarrow> world \<Rightarrow> string run \<times> world" where
  "prepareKubeconfigFile e kubeConfigFile w =
     (let kubeConfigEnv = (if kubeConfigFile \<noteq> [] then kubeConfigFile else KUBECONFIG e);
          GlobalFile = (if kubeConfigFile \<noteq> [] then kubeConfigFile else RecommendedHomeFile e)
      in if kubeConfigEnv \<noteq> [] then
           andThen (fileExists e kubeConfigEnv w)
             (\<lambda>ex w1.
                if \<not> ex then
                  (case os_Create e kubeConfigEnv w1 of
                     (Some x, w2) \<Rightarrow> (Exits 1, eprintln (ErrLine x) w2)
                   | (None, w2) \<Rightarrow> (Returns GlobalFile, w2))
                else (Returns GlobalFile, w1))
         else (Returns GlobalFile, w))"

text \<open>The arguments of the plugin entry, lines 94 to 104.\<close>

definition execArgs :: "env \<Rightarrow> string \<Rightarrow> string list" where
  "execArgs e clusterID =
     [''--config'', cfgFile e, ''--account'', account e,
      ''kubernetes'', ''cluster'', ''exec-credential'', ''--cluster'', clusterID]"

text \<open>
  Lines 68 to 130: the bundle merged into the kubeconfig in memory. The result is the
  line printed to standard error before \<^verbatim>\<open>os.Exit(1)\<close>, or the kubeconfig handed to
  \<^verbatim>\<open>ModifyConfig\<close>. The entry written at lines 85 to 88 takes the key for the certificate
  and the certificate for the key; both branches that follow replace it.
\<close>

definition mergeKubeConfig :: "env \<Rightarrow> string \<Rightarrow> bool \<Rightarrow> kubeConfig \<Rightarrow> Config \<Rightarrow> line + Config" where
  "mergeKubeConfig e clusterID credentialPlugin newKubeConfig currentKubeConfig =
     (if length (kc_Clusters newKubeConfig) = 0 \<or> length (kc_Users newKubeConfig) = 0
      then Inl (TextLine ''Error: Invaild kubeconfig'')
      else
        (let c = kc_Clusters newKubeConfig ! 0;
             u = kc_Users newKubeConfig ! 0
         in case b64_DecodeString (c_CertificateAuthorityData c) of
              (_, Some x) \<Rightarrow> Inl (ErrLine x)
            | (certificateAuthorityData, None) \<Rightarrow>
                (let cfg1 = currentKubeConfig
                       \<lparr>Clusters := (Clusters currentKubeConfig)
                          (c_Name c \<mapsto>
                             \<lparr>cl_Server = c_Server c,
                              cl_CertificateAuthorityData = certificateAuthorityData\<rparr>)\<rparr>;
                     cfg2 = cfg1
                       \<lparr>AuthInfos := (AuthInfos cfg1)
                          (u_Name u \<mapsto>
                             zero_AuthInfo
                               \<lparr>ai_ClientCertificate := u_ClientKeyData u,
                                ai_ClientKey := u_ClientCertificateData u\<rparr>)\<rparr>;
                     cfg3 =
                       (if credentialPlugin then
                          Inr (cfg2
                            \<lparr>AuthInfos := (AuthInfos cfg2)
                               (u_Name u \<mapsto>
                                  zero_AuthInfo
                                    \<lparr>ai_Exec := Some
                                       \<lparr>ex_Command = cliPath e,
                                        ex_Args = execArgs e clusterID,
                                        ex_APIVersion = SchemeGroupVersion\<rparr>\<rparr>)\<rparr>)
                        else
                          (case b64_DecodeString (u_ClientCertificateData u) of
                             (_, Some x) \<Rightarrow> Inl (ErrLine x)
                           | (clientCertificateData, None) \<Rightarrow>
                               (case b64_DecodeString (u_ClientKeyData u) of
                                  (_, Some x) \<Rightarrow> Inl (ErrLine x)
                                | (clientKeyData, None) \<Rightarrow>
                                    Inr (cfg2
                                      \<lparr>AuthInfos := (AuthInfos cfg2)
                                         (u_Name u \<mapsto>
                                            zero_AuthInfo
                                              \<lparr>ai_ClientCertificateData := clientCertificateData,
                                               ai_ClientKeyData := clientKeyData\<rparr>)\<rparr>))))
                 in case cfg3 of
                      Inl l \<Rightarrow> Inl l
                    | Inr cfg \<Rightarrow>
                        Inr (cfg
                          \<lparr>Contexts := (Contexts cfg)
                             (kc_CurrentContext newKubeConfig \<mapsto>
                                \<lparr>ctx_Cluster = c_Name c, ctx_AuthInfo = u_Name u\<rparr>),
                           CurrentContext := kc_CurrentContext newKubeConfig\<rparr>))))"

text \<open>The command, with its flags \<^verbatim>\<open>--kubeconfig\<close>, \<^verbatim>\<open>--cluster\<close> and \<^verbatim>\<open>--credential-plugin\<close>.\<close>

definition saveKubeconfigCmd :: "env \<Rightarrow> string \<Rightarrow> string \<Rightarrow> bool \<Rightarrow> world \<Rightarrow> unit run \<times> world" where
  "saveKubeconfigCmd e kubeConfigFile clusterID credentialPlugin w =
     andThen (prepareKubeconfigFile e kubeConfigFile w)
       (\<lambda>GlobalFile w1.
          case GetStartingConfig e GlobalFile w1 of
            Inl x \<Rightarrow> (Exits 1, eprintln (ErrLine x) w1)
          | Inr currentKubeConfig \<Rightarrow>
              andThen (fetchKubeConfigFromProvider e clusterID w1)
                (\<lambda>newKubeConfig w2.
                   case mergeKubeConfig e clusterID credentialPlugin newKubeConfig
                          currentKubeConfig of
                     Inl l \<Rightarrow> (Exits 1, eprintln l w2)
                   | Inr cfg \<Rightarrow>
                       (case ModifyConfig e GlobalFile cfg w2 of
                          (Some x, w3) \<Rightarrow> (Exits 1, eprintln (ErrLine x) w3)
                        | (None, w3) \<Rightarrow> (Returns (), w3))))"

subsection \<open>Concrete environments and worlds\<close>

text \<open>
  A machine where no call fails, whose clock reads \<open>now\<close> and whose provider answers every
  request with the given credentials; a world with the given files and nothing else; a
  bundle of one cluster and one user with the given base64 fields; a credential record
  with the given status.
\<close>

definition example_env :: "nat \<Rightarrow> yaml_text list \<Rightarrow> env" where
  "example_env now creds =
     \<lparr>cfgFile = ''/etc/gscloud/config.yaml'',
      cfgDir = ''/etc/gscloud'',
      account = ''default'',
      cliPath = ''/usr/bin/gscloud'',
      apiPaasServiceBase = ''/objects/paas/services'',
      KUBECONFIG = [],
      RecommendedHomeFile = ''/root/.kube/config'',
      clock = now,
      isDir = (\<lambda>_. False),
      http = (\<lambda>_. Inr \<lparr>Credentials = creds\<rparr>),
      faults = (\<lambda>_ _. None)\<rparr>"

definition empty_Config :: Config where
  "empty_Config =
     \<lparr>Clusters = Map.empty, AuthInfos = Map.empty, Contexts = Map.empty, CurrentContext = []\<rparr>"

definition example_world :: "(string \<rightharpoonup> file_content) \<Rightarrow> world" where
  "example_world fs =
     \<lparr>files = fs, stdout = [], stderr = [], requests = [], kubeconfig = empty_Config\<rparr>"

definition example_bundle :: "string \<Rightarrow> string \<Rightarrow> string \<Rightarrow> kubeConfig" where
  "example_bundle ca cert key =
     \<lparr>kc_Clusters = [\<lparr>c_Name = ''k8s'', c_Server = ''https://k8s.example:6443'',
                      c_CertificateAuthorityData = ca\<rparr>],
      kc_Users = [\<lparr>u_Name = ''admin'', u_ClientCertificateData = cert, u_ClientKeyData = key\<rparr>],
      kc_CurrentContext = ''admin@k8s''\<rparr>"

definition example_credential :: "ExecCredentialStatus option \<Rightarrow> ExecCredential" where
  "example_credential st =
     \<lparr>Kind = ''ExecCredential'', APIVersion = SchemeGroupVersion, Status = st\<rparr>"

definition example_status :: "time option \<Rightarrow> ExecCredentialStatus" where
  "example_status t =
     \<lparr>ExpirationTimestamp = t, Token = [], ClientCertificateData = ''a'', ClientKeyData = ''b''\<rparr>"

text \<open>The path of the cache file of cluster \<^verbatim>\<open>abc\<close> on that machine.\<close>

definition example_path :: string where
  "example_path = ''/etc/gscloud/cache/exec-credential/abc.json''"

text \<open>
  The kubeconfig that results from merging the example bundle (certificate authority
  \<^verbatim>\<open>YQ==\<close>, certificate \<^verbatim>\<open>YQ==\<close>, key \<^verbatim>\<open>Yg==\<close>) into the empty one, in plugin mode
  and in embedded mode.
\<close>

definition example_plugin_config :: Config where
  "example_plugin_config =
     \<lparr>Clusters = [''k8s'' \<mapsto> \<lparr>cl_Server = ''https://k8s.example:6443'',
                                cl_CertificateAuthorityData = ''a''\<rparr>],
      AuthInfos = [''admin'' \<mapsto>
         \<lparr>ai_ClientCertificate = [], ai_ClientCertificateData = [], ai_ClientKey = [],
          ai_ClientKeyData = [],
          ai_Exec = Some
            \<lparr>ex_Command = ''/usr/bin/gscloud'',
             ex_Args = [''--config'', ''/etc/gscloud/config.yaml'', ''--account'', ''default'',
                        ''kubernetes'', ''cluster'', ''exec-credential'', ''--cluster'', ''abc''],
             ex_APIVersion = ''client.authentication.k8s.io/v1beta1''\<rparr>\<rparr>],
      Contexts = [''admin@k8s'' \<mapsto> \<lparr>ctx_Cluster = ''k8s'', ctx_AuthInfo = ''admin''\<rparr>],
      CurrentContext = ''admin@k8s''\<rparr>"

definition example_embedded_config :: Config where
  "example_embedded_config =
     \<lparr>Clusters = [''k8s'' \<mapsto> \<lparr>cl_Server = ''https://k8s.example:6443'',
                                cl_CertificateAuthorityData = ''a''\<rparr>],
      AuthInfos = [''admin'' \<mapsto>
         \<lparr>ai_ClientCertificate = [], ai_ClientCertificateData = ''a'', ai_ClientKey = [],
          ai_ClientKeyData = ''b'', ai_Exec = None\<rparr>],
      Contexts = [''admin@k8s'' \<mapsto> \<lparr>ctx_Cluster = ''k8s'', ctx_AuthInfo = ''admin''\<rparr>],
      CurrentContext = ''admin@k8s''\<rparr>"

text \<open>The same machine with a configuration directory that cannot be written.\<close>

definition example_env_readonly :: "nat \<Rightarrow> yaml_text list \<Rightarrow> env" where
  "example_env_readonly now creds =
     (example_env now creds)
       \<lparr>faults := (\<lambda>s p. if s = SysMkdirAll then Some (OSError ''read-only file system'')
                        else None)\<rparr>"

section \<open>Properties\<close>

subsection \<open>Evaluation and helper lemmas\<close>

lemmas run_defs =
  execCredentialCmd_def GetStartingConfig_def loadCachedKubeConfig_def os_Open_def os_Remove_def
  os_MkdirAll_def os_OpenFile_def json_Encode_def json_Decode_def json_MarshalIndent_def
  cachedKubeConfigPath_def kubeConfigCachePath_def os_IsNotExist_def
  ifErr_Fprintln_Stderr_def ifErr_Println_def renewExecCredential_def cacheKubeConfig_def
  fetchKubeConfigFromProvider_def execute_def println_def eprintln_def
  yaml_Unmarshal_def zero_kubeConfig_def IsZero_def time_Now_def time_Add_def time_Before_def
  example_env_def example_world_def example_bundle_def example_credential_def
  example_status_def example_path_def Let_def Hour_def

lemma decode_percent: "b64_DecodeString ''%%%%'' = ([], Some CorruptInputError)"
  by code_simp

lemma decode_a: "b64_DecodeString ''YQ=='' = (''a'', None)"
  by code_simp

lemma decode_b: "b64_DecodeString ''Yg=='' = (''b'', None)"
  by code_simp

text \<open>The fetch, case by case: what it returns, the requests it sends, what it reports.\<close>

lemma fetch_cases:
  "fetchKubeConfigFromProvider e ident w =
     (let r1 =
            \<lparr>uri = path_Join [apiPaasServiceBase e, ident, ''renew_credentials''], method = MethodPatch\<rparr>;
          r2 = \<lparr>uri = path_Join [apiPaasServiceBase e, ident], method = MethodGet\<rparr>
      in case http e r1 of
           Inl x \<Rightarrow>
             (Exits 1, w\<lparr>requests := requests w @ [r1], stderr := stderr w @ [ErrLine x]\<rparr>)
         | Inr _ \<Rightarrow>
             (case http e r2 of
                Inl x \<Rightarrow>
                  (Exits 1,
                   w\<lparr>requests := requests w @ [r1, r2], stderr := stderr w @ [ErrLine x]\<rparr>)
              | Inr svc \<Rightarrow>
                  (case Credentials svc of
                     [] \<Rightarrow> (Returns zero_kubeConfig, w\<lparr>requests := requests w @ [r1, r2]\<rparr>)
                   | y # _ \<Rightarrow>
                       (Returns (fst (yaml_Unmarshal y)),
                        w\<lparr>requests := requests w @ [r1, r2],
                          stderr := stderr w @
                            (case snd (yaml_Unmarshal y) of
                               None \<Rightarrow> []
                             | Some x \<Rightarrow> [ErrLine x])\<rparr>))))"
  by (simp add: fetchKubeConfigFromProvider_def execute_def eprintln_def Let_def
        split: sum.splits list.splits prod.splits option.splits)

lemma fetch_result_indep:
  "fst (fetchKubeConfigFromProvider e ident w) = fst (fetchKubeConfigFromProvider e ident w')"
  by (simp add: fetch_cases Let_def split: sum.splits list.splits)

lemma fetch_preserves:
  "fetchKubeConfigFromProvider e ident w = (r, w') \<Longrightarrow>
     files w' = files w \<and> stdout w' = stdout w \<and> kubeconfig w' = kubeconfig w"
  by (auto simp add: fetch_cases Let_def split: sum.splits list.splits)

text \<open>What the fetch adds to standard error does not depend on the world it starts in.\<close>

lemma fetch_stderr:
  "stderr (snd (fetchKubeConfigFromProvider e ident w'))
     = stderr w' @ drop (length (stderr w)) (stderr (snd (fetchKubeConfigFromProvider e ident w)))"
  by (simp add: fetch_cases Let_def split: sum.splits list.splits option.splits)

text \<open>Reading the cache looks at the files only: standard error passes through.\<close>

lemma load_stderr:
  "loadCachedKubeConfig e ident (w\<lparr>stderr := s\<rparr>)
     = (fst (loadCachedKubeConfig e ident w), (snd (loadCachedKubeConfig e ident w))\<lparr>stderr := s\<rparr>)"
  by (simp add: loadCachedKubeConfig_def os_Open_def os_Remove_def Let_def
        split: option.splits sum.splits file_content.splits)

lemma load_preserves:
  "stdout (snd (loadCachedKubeConfig e ident w)) = stdout w
   \<and> requests (snd (loadCachedKubeConfig e ident w)) = requests w"
  by (simp add: loadCachedKubeConfig_def os_Open_def os_Remove_def json_Decode_def Let_def
        split: option.splits sum.splits file_content.splits)

lemma load_preserves_stderr:
  "stderr (snd (loadCachedKubeConfig e ident w)) = stderr w"
  by (simp add: loadCachedKubeConfig_def os_Open_def os_Remove_def json_Decode_def Let_def
        split: option.splits sum.splits file_content.splits)

lemma load_hit:
  assumes "os_Open e (cachedKubeConfigPath e ident) w = Inr (JSON (Some c))"
      and "Status c = Some st"
      and "ExpirationTimestamp st = Some t"
      and "time_Now e < t"
  shows "loadCachedKubeConfig e ident w = (Returns (Some c, None), w)"
proof -
  have "0 \<le> time_Now e" by (simp add: time_Now_def)
  with assms(4) have "t \<noteq> 0" "\<not> t < time_Now e" by simp_all
  with assms(1-3) show ?thesis
    by (simp add: loadCachedKubeConfig_def json_Decode_def IsZero_def time_Before_def)
qed

text \<open>
  The renewal when the fetch yields a bundle with a user: the record built from the first
  user, the decoder's errors on standard output, and the cache file when it can be written.
\<close>

lemma renew_first_user:
  assumes "fst (fetchKubeConfigFromProvider e clusterID w) = Returns kc"
      and "kc_Users kc = u # us"
  shows "\<exists>w'. renewExecCredential e clusterID w
                = (Returns (Some
                     \<lparr>Kind = ''ExecCredential'', APIVersion = SchemeGroupVersion,
                      Status = Some
                        \<lparr>ExpirationTimestamp = Some (int (clock e) + 3600 * 1000000000),
                         Token = [],
                         ClientCertificateData = fst (b64_DecodeString (u_ClientCertificateData u)),
                         ClientKeyData = fst (b64_DecodeString (u_ClientKeyData u))\<rparr>\<rparr>), w')
              \<and> stdout w' = stdout w
                  @ (case snd (b64_DecodeString (u_ClientKeyData u)) of
                       None \<Rightarrow> [] | Some x \<Rightarrow> [ErrLine x])
                  @ (case snd (b64_DecodeString (u_ClientCertificateData u)) of
                       None \<Rightarrow> [] | Some x \<Rightarrow> [ErrLine x])
              \<and> stderr w' = stderr (snd (fetchKubeConfigFromProvider e clusterID w))
                  @ (case (case faults e SysMkdirAll (kubeConfigCachePath e) of
                             Some x \<Rightarrow> Some x
                           | None \<Rightarrow>
                               (case faults e SysOpenFile (cachedKubeConfigPath e clusterID) of
                                  Some x \<Rightarrow> Some x
                                | None \<Rightarrow> faults e SysWrite (cachedKubeConfigPath e clusterID))) of
                       None \<Rightarrow> [] | Some x \<Rightarrow> [ErrLine x])
              \<and> (faults e SysMkdirAll (kubeConfigCachePath e) = None
                   \<and> faults e SysOpenFile (cachedKubeConfigPath e clusterID) = None
                   \<and> faults e SysWrite (cachedKubeConfigPath e clusterID) = None \<longrightarrow>
                  files w' (cachedKubeConfigPath e clusterID)
                  = Some (JSON (Some
                     \<lparr>Kind = ''ExecCredential'', APIVersion = SchemeGroupVersion,
                      Status = Some
                        \<lparr>ExpirationTimestamp = Some (int (clock e) + 3600 * 1000000000),
                         Token = [],
                         ClientCertificateData = fst (b64_DecodeString (u_ClientCertificateData u)),
                         ClientKeyData = fst (b64_DecodeString (u_ClientKeyData u))\<rparr>\<rparr>)))"
proof -
  obtain w1 where f: "fetchKubeConfigFromProvider e clusterID w = (Returns kc, w1)"
    using assms(1) by (cases "fetchKubeConfigFromProvider e clusterID w") simp
  have p: "stdout w1 = stdout w"
    using fetch_preserves [OF f] by simp
  show ?thesis
    using assms(2) p
    by (simp add: renewExecCredential_def f cacheKubeConfig_def IsZero_def time_Add_def
          time_Now_def Hour_def os_MkdirAll_def os_OpenFile_def json_Encode_def
          ifErr_Println_def ifErr_Fprintln_Stderr_def println_def eprintln_def Let_def
          split: prod.splits option.splits)
qed

text \<open>save-kubeconfig once the file is prepared, the kubeconfig loaded and the bundle fetched.\<close>

lemma prepare_preserves:
  "prepareKubeconfigFile e f w = (r, w1) \<Longrightarrow>
     kubeconfig w1 = kubeconfig w \<and> requests w1 = requests w \<and> stdout w1 = stdout w"
  by (auto simp add: prepareKubeconfigFile_def fileExists_def os_Create_def eprintln_def Let_def
        split: if_splits sum.splits option.splits)

lemma saveKubeconfigCmd_after_fetch:
  assumes "prepareKubeconfigFile e f w = (Returns g, w1)"
      and "GetStartingConfig e g w1 = Inr cur"
      and "fetchKubeConfigFromProvider e ident w1 = (Returns kc, w2)"
  shows "saveKubeconfigCmd e f ident p w =
           (case mergeKubeConfig e ident p kc cur of
              Inl l \<Rightarrow> (Exits 1, eprintln l w2)
            | Inr cfg \<Rightarrow>
                (case ModifyConfig e g cfg w2 of
                   (Some x, w3) \<Rightarrow> (Exits 1, eprintln (ErrLine x) w3)
                 | (None, w3) \<Rightarrow> (Returns (), w3)))"
  using assms by (simp add: saveKubeconfigCmd_def)

lemma mergeKubeConfig_invalid:
  "kc_Clusters kc = [] \<or> kc_Users kc = [] \<Longrightarrow>
     mergeKubeConfig e ident p kc cur = Inl (TextLine ''Error: Invaild kubeconfig'')"
  by (auto simp add: mergeKubeConfig_def)

text \<open>A run of save-kubeconfig that returns has fetched a bundle, merged it and written the result.\<close>

lemma andThen_Returns:
  "andThen m f = (Returns b, w') \<Longrightarrow> \<exists>a w1. m = (Returns a, w1) \<and> f a w1 = (Returns b, w')"
proof (cases m)
  case (Pair r w1)
  assume "andThen m f = (Returns b, w')"
  with Pair show ?thesis by (cases r) simp_all
qed

lemma saveKubeconfigCmd_Returns:
  assumes "saveKubeconfigCmd e f ident p w = (Returns (), w')"
  shows "\<exists>kc cfg. fst (fetchKubeConfigFromProvider e ident w) = Returns kc
            \<and> mergeKubeConfig e ident p kc (kubeconfig w) = Inr cfg
            \<and> kubeconfig w' = cfg"
proof -
  from assms obtain g w1 where
      prep: "prepareKubeconfigFile e f w = (Returns g, w1)"
      and rest: "(case GetStartingConfig e g w1 of
            Inl x \<Rightarrow> (Exits 1, eprintln (ErrLine x) w1)
          | Inr currentKubeConfig \<Rightarrow>
              andThen (fetchKubeConfigFromProvider e ident w1)
                (\<lambda>newKubeConfig w2.
                   case mergeKubeConfig e ident p newKubeConfig
                          currentKubeConfig of
                     Inl l \<Rightarrow> (Exits 1, eprintln l w2)
                   | Inr cfg \<Rightarrow>
                       (case ModifyConfig e g cfg w2 of
                          (Some x, w3) \<Rightarrow> (Exits 1, eprintln (ErrLine x) w3)
                        | (None, w3) \<Rightarrow> (Returns (), w3)))) = (Returns (), w')"
    unfolding saveKubeconfigCmd_def by (blast dest: andThen_Returns)
  have k1: "kubeconfig w1 = kubeconfig w"
    using prepare_preserves [OF prep] by simp
  from rest obtain cur where load: "GetStartingConfig e g w1 = Inr cur"
    by (cases "GetStartingConfig e g w1") simp_all
  have cur: "cur = kubeconfig w"
    using load k1 by (simp add: GetStartingConfig_def split: option.splits)
  from rest load obtain kc w2 where
      fetch: "fetchKubeConfigFromProvider e ident w1 = (Returns kc, w2)"
      and rest2: "(case mergeKubeConfig e ident p kc cur of
                     Inl l \<Rightarrow> (Exits 1, eprintln l w2)
                   | Inr cfg \<Rightarrow>
                       (case ModifyConfig e g cfg w2 of
                          (Some x, w3) \<Rightarrow> (Exits 1, eprintln (ErrLine x) w3)
                        | (None, w3) \<Rightarrow> (Returns (), w3))) = (Returns (), w')"
    by (auto dest: andThen_Returns)
  from rest2 obtain cfg where m: "mergeKubeConfig e ident p kc cur = Inr cfg"
    by (cases "mergeKubeConfig e ident p kc cur") simp_all
  from rest2 m have "kubeconfig w' = cfg"
    by (auto simp add: ModifyConfig_def split: option.splits)
  moreover have "fst (fetchKubeConfigFromProvider e ident w) = Returns kc"
    using fetch fetch_result_indep [of e ident w w1] by simp
  ultimately show ?thesis using m cur by blast
qed

text \<open>The example machine, step by step.\<close>

lemma example_prepare:
  "prepareKubeconfigFile (example_env now creds) [] (example_world fs)
     = (Returns ''/root/.kube/config'', example_world fs)"
  by (simp add: prepareKubeconfigFile_def example_env_def)

lemma example_GetStartingConfig:
  "GetStartingConfig (example_env now creds) g (example_world fs) = Inr empty_Config"
  by (simp add: GetStartingConfig_def example_env_def example_world_def)

lemma example_fetch:
  "fetchKubeConfigFromProvider (example_env now [YAML kc]) ''abc'' (example_world fs)
     = (Returns kc,
        (example_world fs)
          \<lparr>requests :=
             [\<lparr>uri = ''/objects/paas/services/abc/renew_credentials'', method = MethodPatch\<rparr>,
              \<lparr>uri = ''/objects/paas/services/abc'', method = MethodGet\<rparr>]\<rparr>)"
  by (simp add: fetch_cases example_env_def example_world_def yaml_Unmarshal_def)

lemma example_merge_plugin:
  "mergeKubeConfig (example_env now creds) ''abc'' True (example_bundle ''YQ=='' cert key)
     empty_Config = Inr example_plugin_config"
  by (simp add: mergeKubeConfig_def example_bundle_def decode_a Let_def example_env_def
        empty_Config_def execArgs_def example_plugin_config_def zero_AuthInfo_def
        SchemeGroupVersion_def)

lemma example_merge_embedded:
  "mergeKubeConfig (example_env now creds) ''abc'' False (example_bundle ''YQ=='' ''YQ=='' ''Yg=='')
     empty_Config = Inr example_embedded_config"
  by (simp add: mergeKubeConfig_def example_bundle_def decode_a decode_b Let_def
        empty_Config_def example_embedded_config_def zero_AuthInfo_def)

subsection \<open>Claims\<close>

text \<open>
  C1. The claim: an invocation of exec-credential that obtains no credential (the bundle
  has no users, or a field does not decode) prints nothing on standard output.
  The code prints there. First run: the cache is empty and the provider has no credentials
  for the cluster; line 205 prints its message with \<^verbatim>\<open>fmt.Println\<close>, so the message is the
  one line of standard output and standard error stays empty. Second run: the key of the
  first user is not base64; line 179 prints the decoder's error with \<^verbatim>\<open>fmt.Println\<close>, and
  the command goes on to print the document built from the bytes decoded so far.
\<close>

theorem execCredentialCmd_failure_on_stdout:
  "stdout (snd (execCredentialCmd (example_env 1000 []) [] ''abc'' (example_world Map.empty)))
     = [TextLine ''Error: Could not retrieve kubeconfig from provider for account:  default'']
   \<and> stderr (snd (execCredentialCmd (example_env 1000 []) [] ''abc''
                    (example_world Map.empty))) = []
   \<and> stdout (snd (execCredentialCmd
                    (example_env 1000 [YAML (example_bundle ''YQ=='' ''YQ=='' ''%%%%'')])
                    [] ''abc'' (example_world Map.empty)))
     = [ErrLine CorruptInputError,
        JSONDoc (example_credential (Some
          \<lparr>ExpirationTimestamp = Some (1000 + Hour), Token = [],
           ClientCertificateData = ''a'', ClientKeyData = []\<rparr>))]"
  by (simp add: run_defs decode_percent decode_a)

text \<open>
  C2. The claim: whatever the cache file holds, reading it returns a value or an error
  and never crashes. The code crashes on a well-formed file whose record has no status:
  line 302 reads through the nil \<^verbatim>\<open>Status\<close> before line 304 tests it, so
  \<^verbatim>\<open>loadCachedKubeConfig\<close> panics, and with it the command.
\<close>

theorem loadCachedKubeConfig_nil_Status_panics:
  "loadCachedKubeConfig (example_env 1000 []) ''abc''
       (example_world [example_path \<mapsto> JSON (Some (example_credential None))])
     = (Panics, example_world [example_path \<mapsto> JSON (Some (example_credential None))])
   \<and> fst (execCredentialCmd (example_env 1000 []) [] ''abc''
            (example_world [example_path \<mapsto> JSON (Some (example_credential None))]))
     = Panics"
  by (simp add: run_defs)

text \<open>
  The boundary of the expiry test. The clock reads exactly the expiration timestamp of
  the cached record: \<^verbatim>\<open>timeStamp.Time.Before(time.Now())\<close> is false, the record is
  returned and the file stays.
\<close>

theorem loadCachedKubeConfig_at_expiration_hit:
  "time_Now (example_env 5000 []) = 5000
   \<and> loadCachedKubeConfig (example_env 5000 []) ''abc''
        (example_world [example_path \<mapsto> JSON (Some (example_credential (Some (example_status (Some 5000)))))])
     = (Returns (Some (example_credential (Some (example_status (Some 5000)))), None),
        example_world [example_path \<mapsto> JSON (Some (example_credential (Some (example_status (Some 5000)))))])"
  by (simp add: run_defs)

text \<open>
  C3, as the code has it. For a cache file that opens and decodes to a record with a
  status: while the clock has not passed the expiration timestamp \<open>t\<close> (\<open>t\<close> not zero,
  clock at or before \<open>t\<close>) the read returns the record unchanged and leaves the world as
  it is; when the timestamp is unset, zero, or strictly before the clock, the read returns
  no record, with the result of \<^verbatim>\<open>os.Remove\<close> as its error, and when the removal does not
  fail the file is gone. (The claim puts the boundary one instant earlier: it has the read
  at time \<open>t\<close> itself miss.)
\<close>

theorem loadCachedKubeConfig_expiry:
  assumes "os_Open e (cachedKubeConfigPath e ident) w = Inr (JSON (Some c))"
      and "Status c = Some st"
  shows "(ExpirationTimestamp st = Some t \<and> t \<noteq> 0 \<and> time_Now e \<le> t \<longrightarrow>
            loadCachedKubeConfig e ident w = (Returns (Some c, None), w))
       \<and> ((ExpirationTimestamp st = None \<or> ExpirationTimestamp st = Some 0
            \<or> (\<exists>t. ExpirationTimestamp st = Some t \<and> t < time_Now e)) \<longrightarrow>
            loadCachedKubeConfig e ident w
              = (Returns (None, fst (os_Remove e (cachedKubeConfigPath e ident) w)),
                 snd (os_Remove e (cachedKubeConfigPath e ident) w))
            \<and> (faults e SysRemove (cachedKubeConfigPath e ident) = None \<longrightarrow>
                 loadCachedKubeConfig e ident w
                   = (Returns (None, None),
                      w\<lparr>files := (files w)(cachedKubeConfigPath e ident := None)\<rparr>)))"
proof -
  have present: "files w (cachedKubeConfigPath e ident) = Some (JSON (Some c))"
    using assms(1) by (simp add: os_Open_def split: option.splits)
  have hit: "loadCachedKubeConfig e ident w = (Returns (Some c, None), w)"
    if "ExpirationTimestamp st = Some t" "t \<noteq> 0" "time_Now e \<le> t"
    using assms that
    by (simp add: loadCachedKubeConfig_def json_Decode_def IsZero_def time_Before_def)
  have miss: "loadCachedKubeConfig e ident w
              = (Returns (None, fst (os_Remove e (cachedKubeConfigPath e ident) w)),
                 snd (os_Remove e (cachedKubeConfigPath e ident) w))"
    if "ExpirationTimestamp st = None \<or> ExpirationTimestamp st = Some 0
            \<or> (\<exists>t. ExpirationTimestamp st = Some t \<and> t < time_Now e)"
    using assms that
    by (auto simp add: loadCachedKubeConfig_def json_Decode_def IsZero_def time_Before_def
          split: prod.splits)
  have removed: "os_Remove e (cachedKubeConfigPath e ident) w
       = (None, w\<lparr>files := (files w)(cachedKubeConfigPath e ident := None)\<rparr>)"
    if "faults e SysRemove (cachedKubeConfigPath e ident) = None"
    using that present by (simp add: os_Remove_def)
  show ?thesis
    using hit miss removed by auto
qed

theorem loadCachedKubeConfig_expiry_witness:
  "loadCachedKubeConfig (example_env 5000 []) ''abc''
        (example_world [example_path \<mapsto> JSON (Some (example_credential (Some (example_status (Some 5001)))))])
     = (Returns (Some (example_credential (Some (example_status (Some 5001)))), None),
        example_world [example_path \<mapsto> JSON (Some (example_credential (Some (example_status (Some 5001)))))])
   \<and> loadCachedKubeConfig (example_env 5000 []) ''abc''
        (example_world [example_path \<mapsto> JSON (Some (example_credential (Some (example_status (Some 4999)))))])
     = (Returns (None, None), example_world Map.empty)"
proof -
  let ?e = "example_env 5000 []"
  let ?c = "\<lambda>t. example_credential (Some (example_status (Some t)))"
  let ?w = "\<lambda>t. example_world [example_path \<mapsto> JSON (Some (?c t))]"
  have p: "cachedKubeConfigPath ?e ''abc'' = example_path"
    by (simp add: run_defs)
  have o: "os_Open ?e (cachedKubeConfigPath ?e ''abc'') (?w t) = Inr (JSON (Some (?c t)))" for t
    by (simp add: run_defs)
  have s: "Status (?c t) = Some (example_status (Some t))" for t
    by (simp add: example_credential_def)
  have f: "faults ?e SysRemove (cachedKubeConfigPath ?e ''abc'') = None"
    by (simp add: example_env_def)
  have a: "loadCachedKubeConfig ?e ''abc'' (?w 5001) = (Returns (Some (?c 5001), None), ?w 5001)"
    by (rule loadCachedKubeConfig_expiry [where t = 5001, OF o s, THEN conjunct1, THEN mp])
       (simp add: example_status_def time_Now_def example_env_def)
  have b: "loadCachedKubeConfig ?e ''abc'' (?w 4999)
             = (Returns (None, None),
                (?w 4999)\<lparr>files := (files (?w 4999))(cachedKubeConfigPath ?e ''abc'' := None)\<rparr>)"
    by (rule loadCachedKubeConfig_expiry [OF o s, THEN conjunct2, THEN mp, THEN conjunct2, THEN mp])
       (simp_all add: example_status_def time_Now_def example_env_def)
  show ?thesis using a b by (simp add: p example_world_def)
qed

text \<open>
  A file the JSON decoder rejects: the read returns the decoder's error at line 299 and
  the file is still there afterwards.
\<close>

theorem loadCachedKubeConfig_corrupt_file_kept:
  "loadCachedKubeConfig (example_env 5000 []) ''abc''
       (example_world [example_path \<mapsto> Raw ''{not json''])
     = (Returns (None, Some JSONError), example_world [example_path \<mapsto> Raw ''{not json''])
   \<and> files (snd (loadCachedKubeConfig (example_env 5000 []) ''abc''
                   (example_world [example_path \<mapsto> Raw ''{not json''])))
         (cachedKubeConfigPath (example_env 5000 []) ''abc'')
     = Some (Raw ''{not json'')"
  by (simp add: run_defs)

text \<open>
  C4, as the code has it. For a cache file that opens: if it decodes to a record with a
  status whose expiration timestamp is unset, zero or before the clock, and the removal
  does not fail, the read deletes the file, and the next read finds no file and returns
  no record and no error; if the decoder rejects the content, the read returns the
  decoder's error and changes nothing, the file included. (The claim has the read delete
  the malformed file as well.)
\<close>

theorem loadCachedKubeConfig_stale_or_corrupt:
  assumes "os_Open e (cachedKubeConfigPath e ident) w = Inr content"
  shows "(content = JSON (Some c) \<and> Status c = Some st
            \<and> (IsZero (ExpirationTimestamp st)
                \<or> (\<exists>t. ExpirationTimestamp st = Some t \<and> t < time_Now e))
            \<and> faults e SysRemove (cachedKubeConfigPath e ident) = None \<longrightarrow>
          (\<exists>w'. loadCachedKubeConfig e ident w = (Returns (None, None), w')
                \<and> files w' (cachedKubeConfigPath e ident) = None
                \<and> loadCachedKubeConfig e ident w' = (Returns (None, None), w')))
       \<and> (content = Raw s \<longrightarrow>
            loadCachedKubeConfig e ident w = (Returns (None, Some JSONError), w))"
proof (intro conjI impI)
  assume a: "content = JSON (Some c) \<and> Status c = Some st
            \<and> (IsZero (ExpirationTimestamp st)
                \<or> (\<exists>t. ExpirationTimestamp st = Some t \<and> t < time_Now e))
            \<and> faults e SysRemove (cachedKubeConfigPath e ident) = None"
  let ?p = "cachedKubeConfigPath e ident"
  let ?w' = "w\<lparr>files := (files w)(?p := None)\<rparr>"
  have nofault: "faults e SysOpen ?p = None" and present: "files w ?p = Some content"
    using assms by (simp_all add: os_Open_def split: option.splits)
  have first: "loadCachedKubeConfig e ident w = (Returns (None, None), ?w')"
    using assms a present
    by (auto simp add: loadCachedKubeConfig_def json_Decode_def time_Before_def os_Remove_def)
  have second: "loadCachedKubeConfig e ident ?w' = (Returns (None, None), ?w')"
    using nofault by (simp add: loadCachedKubeConfig_def os_Open_def os_IsNotExist_def)
  show "\<exists>w'. loadCachedKubeConfig e ident w = (Returns (None, None), w')
                \<and> files w' (cachedKubeConfigPath e ident) = None
                \<and> loadCachedKubeConfig e ident w' = (Returns (None, None), w')"
    using first second by simp
next
  assume "content = Raw s"
  then show "loadCachedKubeConfig e ident w = (Returns (None, Some JSONError), w)"
    using assms by (simp add: loadCachedKubeConfig_def json_Decode_def)
qed

theorem loadCachedKubeConfig_stale_or_corrupt_witness:
  "(\<exists>w'. loadCachedKubeConfig (example_env 5000 []) ''abc''
            (example_world [example_path \<mapsto>
               JSON (Some (example_credential (Some (example_status (Some 4999)))))])
          = (Returns (None, None), w')
        \<and> files w' (cachedKubeConfigPath (example_env 5000 []) ''abc'') = None
        \<and> loadCachedKubeConfig (example_env 5000 []) ''abc'' w' = (Returns (None, None), w'))
   \<and> loadCachedKubeConfig (example_env 5000 []) ''abc''
        (example_world [example_path \<mapsto> Raw ''{not json''])
     = (Returns (None, Some JSONError), example_world [example_path \<mapsto> Raw ''{not json''])"
proof -
  let ?e = "example_env 5000 []"
  let ?c = "example_credential (Some (example_status (Some 4999)))"
  have o1: "os_Open ?e (cachedKubeConfigPath ?e ''abc'')
              (example_world [example_path \<mapsto> JSON (Some ?c)]) = Inr (JSON (Some ?c))"
    by (simp add: run_defs)
  have o2: "os_Open ?e (cachedKubeConfigPath ?e ''abc'')
              (example_world [example_path \<mapsto> Raw ''{not json'']) = Inr (Raw ''{not json'')"
    by (simp add: run_defs)
  have stale: "?c = ?c \<and> Status ?c = Some (example_status (Some 4999))
      \<and> (IsZero (ExpirationTimestamp (example_status (Some 4999)))
          \<or> (\<exists>t. ExpirationTimestamp (example_status (Some 4999)) = Some t \<and> t < time_Now ?e))
      \<and> faults ?e SysRemove (cachedKubeConfigPath ?e ''abc'') = None"
    by (simp add: example_credential_def example_status_def time_Now_def example_env_def)
  show ?thesis
    using loadCachedKubeConfig_stale_or_corrupt [OF o1, THEN conjunct1, THEN mp, of ?c "example_status (Some 4999)"]
          loadCachedKubeConfig_stale_or_corrupt [OF o2, THEN conjunct2, THEN mp, of "''{not json''"]
          stale
    by simp
qed

text \<open>
  C5. Once the kubeconfig is loaded and the provider's bundle \<open>kc\<close> fetched: if the bundle
  has no cluster or no user, the command prints \<^verbatim>\<open>Error: Invaild kubeconfig\<close> on standard
  error and exits with status 1; and whenever the merge fails, on this check or on a
  base64 field, the command exits with status 1 after printing the failure, the kubeconfig
  on disk is the one the command started with, and no file has changed since the
  preparation of the kubeconfig path.
\<close>

theorem saveKubeconfigCmd_invalid_bundle:
  assumes "prepareKubeconfigFile e f w = (Returns g, w1)"
      and "GetStartingConfig e g w1 = Inr cur"
      and "fetchKubeConfigFromProvider e ident w1 = (Returns kc, w2)"
  shows "(kc_Clusters kc = [] \<or> kc_Users kc = [] \<longrightarrow>
            saveKubeconfigCmd e f ident p w
              = (Exits 1, eprintln (TextLine ''Error: Invaild kubeconfig'') w2)
            \<and> kubeconfig (snd (saveKubeconfigCmd e f ident p w)) = kubeconfig w
            \<and> files (snd (saveKubeconfigCmd e f ident p w)) = files w1)
       \<and> (mergeKubeConfig e ident p kc cur = Inl l \<longrightarrow>
            saveKubeconfigCmd e f ident p w = (Exits 1, eprintln l w2)
            \<and> kubeconfig (snd (saveKubeconfigCmd e f ident p w)) = kubeconfig w
            \<and> files (snd (saveKubeconfigCmd e f ident p w)) = files w1)"
proof -
  have k: "kubeconfig w2 = kubeconfig w" "files w2 = files w1"
    using fetch_preserves [OF assms(3)] prepare_preserves [OF assms(1)] by simp_all
  show ?thesis
    using k mergeKubeConfig_invalid [of kc e ident p cur]
    by (auto simp add: saveKubeconfigCmd_after_fetch [OF assms] eprintln_def)
qed

theorem saveKubeconfigCmd_invalid_bundle_witness:
  "saveKubeconfigCmd (example_env 1000 [YAML zero_kubeConfig]) [] ''abc'' False
       (example_world Map.empty)
     = (Exits 1,
        eprintln (TextLine ''Error: Invaild kubeconfig'')
          ((example_world Map.empty)
             \<lparr>requests :=
                [\<lparr>uri = ''/objects/paas/services/abc/renew_credentials'', method = MethodPatch\<rparr>,
                 \<lparr>uri = ''/objects/paas/services/abc'', method = MethodGet\<rparr>]\<rparr>))
   \<and> kubeconfig (snd (saveKubeconfigCmd (example_env 1000 [YAML zero_kubeConfig]) [] ''abc'' False
                        (example_world Map.empty)))
     = kubeconfig (example_world Map.empty)
   \<and> files (snd (saveKubeconfigCmd (example_env 1000 [YAML zero_kubeConfig]) [] ''abc'' False
                        (example_world Map.empty)))
     = files (example_world Map.empty)"
  by (rule saveKubeconfigCmd_invalid_bundle
            [OF example_prepare example_GetStartingConfig example_fetch, THEN conjunct1, THEN mp])
     (simp add: zero_kubeConfig_def)

text \<open>
  A cache miss on a machine whose configuration directory cannot be written: the bundle
  has a user, the record is built and printed, \<^verbatim>\<open>os.MkdirAll\<close> fails inside
  \<^verbatim>\<open>cacheKubeConfig\<close>, the error goes to standard error and there is no cache file afterwards.
\<close>

theorem execCredentialCmd_cache_not_written:
  "loadCachedKubeConfig (example_env_readonly 1000 [YAML (example_bundle ''YQ=='' ''YQ=='' ''Yg=='')])
       ''abc'' (example_world Map.empty)
     = (Returns (None, None), example_world Map.empty)
   \<and> fst (fetchKubeConfigFromProvider
            (example_env_readonly 1000 [YAML (example_bundle ''YQ=='' ''YQ=='' ''Yg=='')])
            ''abc'' (example_world Map.empty))
     = Returns (example_bundle ''YQ=='' ''YQ=='' ''Yg=='')
   \<and> fst (execCredentialCmd
            (example_env_readonly 1000 [YAML (example_bundle ''YQ=='' ''YQ=='' ''Yg=='')])
            [] ''abc'' (example_world Map.empty))
     = Returns ()
   \<and> files (snd (execCredentialCmd
            (example_env_readonly 1000 [YAML (example_bundle ''YQ=='' ''YQ=='' ''Yg=='')])
            [] ''abc'' (example_world Map.empty)))
         (cachedKubeConfigPath
            (example_env_readonly 1000 [YAML (example_bundle ''YQ=='' ''YQ=='' ''Yg=='')]) ''abc'')
     = None
   \<and> stderr (snd (execCredentialCmd
            (example_env_readonly 1000 [YAML (example_bundle ''YQ=='' ''YQ=='' ''Yg=='')])
            [] ''abc'' (example_world Map.empty)))
     = [ErrLine (OSError ''read-only file system'')]"
  by (simp add: run_defs example_env_readonly_def decode_a decode_b)

text \<open>
  C6, as the code has it. On a cache miss (the read of the cache returns no record) with
  a fetched bundle that has a user, the command returns; it builds a record of kind
  \<^verbatim>\<open>ExecCredential\<close> whose status carries the decoded key and certificate of the first
  user and the expiration timestamp clock + 3600 * 10^9 nanoseconds (one hour); it prints
  that record as the last item of standard output, after the decoder's errors if there
  are any; when creating the cache directory, opening the cache file and writing it do
  not fail, the cache file of the cluster holds that record; and standard error receives,
  in this order, the error of loading the kubeconfig, the error of reading the cache, what
  the fetch reports, and last the error of the first of the three steps of the cache write
  that fails, each only if there is one. (The claim has the record persisted on every such
  run.)
\<close>

theorem execCredentialCmd_cache_miss:
  assumes "fst (loadCachedKubeConfig e clusterID w) = Returns (None, err)"
      and "fst (fetchKubeConfigFromProvider e clusterID w) = Returns kc"
      and "kc_Users kc = u # us"
  shows "\<exists>w' c st.
           execCredentialCmd e kubeConfigFile clusterID w = (Returns (), w')
           \<and> Kind c = ''ExecCredential''
           \<and> Status c = Some st
           \<and> ExpirationTimestamp st = Some (time_Add (time_Now e) (3600 * 1000000000))
           \<and> ClientKeyData st = fst (b64_DecodeString (u_ClientKeyData u))
           \<and> ClientCertificateData st = fst (b64_DecodeString (u_ClientCertificateData u))
           \<and> stdout w' = stdout w
                @ (case snd (b64_DecodeString (u_ClientKeyData u)) of
                     None \<Rightarrow> [] | Some x \<Rightarrow> [ErrLine x])
                @ (case snd (b64_DecodeString (u_ClientCertificateData u)) of
                     None \<Rightarrow> [] | Some x \<Rightarrow> [ErrLine x])
                @ [JSONDoc c]
           \<and> (faults e SysMkdirAll (kubeConfigCachePath e) = None
                \<and> faults e SysOpenFile (cachedKubeConfigPath e clusterID) = None
                \<and> faults e SysWrite (cachedKubeConfigPath e clusterID) = None \<longrightarrow>
               files w' (cachedKubeConfigPath e clusterID) = Some (JSON (Some c)))
           \<and> (\<exists>ys. stderr (snd (fetchKubeConfigFromProvider e clusterID w)) = stderr w @ ys
                \<and> stderr w' = stderr w
                     @ (case GetStartingConfig e
                               (if kubeConfigFile \<noteq> [] then kubeConfigFile
                                else RecommendedHomeFile e) w of
                          Inl x \<Rightarrow> [ErrLine x] | Inr _ \<Rightarrow> [])
                     @ (case err of None \<Rightarrow> [] | Some x \<Rightarrow> [ErrLine x])
                     @ ys
                     @ (case (case faults e SysMkdirAll (kubeConfigCachePath e) of
                                Some x \<Rightarrow> Some x
                              | None \<Rightarrow>
                                  (case faults e SysOpenFile (cachedKubeConfigPath e clusterID) of
                                     Some x \<Rightarrow> Some x
                                   | None \<Rightarrow>
                                       faults e SysWrite (cachedKubeConfigPath e clusterID))) of
                          None \<Rightarrow> [] | Some x \<Rightarrow> [ErrLine x]))"
proof -
  let ?c = "\<lparr>Kind = ''ExecCredential'', APIVersion = SchemeGroupVersion,
             Status = Some
               \<lparr>ExpirationTimestamp = Some (int (clock e) + 3600 * 1000000000),
                Token = [],
                ClientCertificateData = fst (b64_DecodeString (u_ClientCertificateData u)),
                ClientKeyData = fst (b64_DecodeString (u_ClientKeyData u))\<rparr>\<rparr>"
  let ?print = "\<lambda>execCredential w3.
                   case execCredential of
                     None \<Rightarrow>
                       (Returns (),
                        println
                          (TextLine
                             (''Error: Could not retrieve kubeconfig from provider for account: ''
                              @ '' '' @ account e))
                          w3)
                   | Some c \<Rightarrow>
                       (case json_MarshalIndent c of
                          Inl x \<Rightarrow> (Returns (), println (TextLine []) (eprintln (ErrLine x) w3))
                        | Inr doc \<Rightarrow> (Returns (), println doc w3))"
  let ?cacheErr = "case (case faults e SysMkdirAll (kubeConfigCachePath e) of
                                Some x \<Rightarrow> Some x
                              | None \<Rightarrow>
                                  (case faults e SysOpenFile (cachedKubeConfigPath e clusterID) of
                                     Some x \<Rightarrow> Some x
                                   | None \<Rightarrow>
                                       faults e SysWrite (cachedKubeConfigPath e clusterID))) of
                          None \<Rightarrow> [] | Some x \<Rightarrow> [ErrLine x]"
  let ?ys = "drop (length (stderr w)) (stderr (snd (fetchKubeConfigFromProvider e clusterID w)))"
  obtain wl where lw: "loadCachedKubeConfig e clusterID w = (Returns (None, err), wl)"
    using assms(1) by (cases "loadCachedKubeConfig e clusterID w") simp
  have wl: "stdout wl = stdout w"
    using load_preserves [of e clusterID w] by (simp add: lw)
  have wle: "stderr wl = stderr w"
    using load_preserves_stderr [of e clusterID w] by (simp add: lw)
  define W where
    "W = ifErr_Fprintln_Stderr err
           (case GetStartingConfig e
                   (if kubeConfigFile \<noteq> [] then kubeConfigFile else RecommendedHomeFile e) w of
              Inl x \<Rightarrow> wl\<lparr>stderr := stderr w @ [ErrLine x]\<rparr>
            | Inr _ \<Rightarrow> wl)"
  have W: "stdout W = stdout w"
    by (simp add: W_def ifErr_Fprintln_Stderr_def eprintln_def wl split: sum.splits option.splits)
  have We: "stderr W = stderr w
              @ (case GetStartingConfig e
                        (if kubeConfigFile \<noteq> [] then kubeConfigFile
                         else RecommendedHomeFile e) w of
                   Inl x \<Rightarrow> [ErrLine x] | Inr _ \<Rightarrow> [])
              @ (case err of None \<Rightarrow> [] | Some x \<Rightarrow> [ErrLine x])"
    by (simp add: W_def ifErr_Fprintln_Stderr_def eprintln_def wle
          split: sum.splits option.splits)
  have cmd: "execCredentialCmd e kubeConfigFile clusterID w
                  = andThen (renewExecCredential e clusterID W) ?print"
    by (simp add: execCredentialCmd_def Let_def eprintln_def load_stderr lw W_def
          split: sum.splits)
  have ys: "stderr (snd (fetchKubeConfigFromProvider e clusterID w)) = stderr w @ ?ys"
    using fetch_stderr [of e clusterID w w] by simp
  have Wys: "stderr (snd (fetchKubeConfigFromProvider e clusterID W)) = stderr W @ ?ys"
    by (rule fetch_stderr)
  have "fst (fetchKubeConfigFromProvider e clusterID W) = Returns kc"
    using assms(2) fetch_result_indep [of e clusterID W w] by simp
  from renew_first_user [OF this assms(3)]
  obtain w1 where r: "renewExecCredential e clusterID W = (Returns (Some ?c), w1)"
      and out: "stdout w1 = stdout W
                  @ (case snd (b64_DecodeString (u_ClientKeyData u)) of
                       None \<Rightarrow> [] | Some x \<Rightarrow> [ErrLine x])
                  @ (case snd (b64_DecodeString (u_ClientCertificateData u)) of
                       None \<Rightarrow> [] | Some x \<Rightarrow> [ErrLine x])"
      and errs: "stderr w1 = stderr (snd (fetchKubeConfigFromProvider e clusterID W)) @ ?cacheErr"
      and fs: "faults e SysMkdirAll (kubeConfigCachePath e) = None
                   \<and> faults e SysOpenFile (cachedKubeConfigPath e clusterID) = None
                   \<and> faults e SysWrite (cachedKubeConfigPath e clusterID) = None \<longrightarrow>
               files w1 (cachedKubeConfigPath e clusterID) = Some (JSON (Some ?c))"
    by blast
  have run: "execCredentialCmd e kubeConfigFile clusterID w
               = (Returns (), println (JSONDoc ?c) w1)"
    by (simp add: cmd r json_MarshalIndent_def)
  have err_all: "stderr (println (JSONDoc ?c) w1) = stderr w
                     @ (case GetStartingConfig e
                               (if kubeConfigFile \<noteq> [] then kubeConfigFile
                                else RecommendedHomeFile e) w of
                          Inl x \<Rightarrow> [ErrLine x] | Inr _ \<Rightarrow> [])
                     @ (case err of None \<Rightarrow> [] | Some x \<Rightarrow> [ErrLine x])
                     @ ?ys @ ?cacheErr"
    by (simp add: println_def errs Wys We)
  have main: "execCredentialCmd e kubeConfigFile clusterID w = (Returns (), println (JSONDoc ?c) w1)
           \<and> stdout (println (JSONDoc ?c) w1) = stdout w
                @ (case snd (b64_DecodeString (u_ClientKeyData u)) of
                     None \<Rightarrow> [] | Some x \<Rightarrow> [ErrLine x])
                @ (case snd (b64_DecodeString (u_ClientCertificateData u)) of
                     None \<Rightarrow> [] | Some x \<Rightarrow> [ErrLine x])
                @ [JSONDoc ?c]
           \<and> (faults e SysMkdirAll (kubeConfigCachePath e) = None
                \<and> faults e SysOpenFile (cachedKubeConfigPath e clusterID) = None
                \<and> faults e SysWrite (cachedKubeConfigPath e clusterID) = None \<longrightarrow>
               files (println (JSONDoc ?c) w1) (cachedKubeConfigPath e clusterID)
                 = Some (JSON (Some ?c)))"
    using run fs out W by (simp add: println_def)
  have tail: "\<exists>ys. stderr (snd (fetchKubeConfigFromProvider e clusterID w)) = stderr w @ ys
                \<and> stderr (println (JSONDoc ?c) w1) = stderr w
                     @ (case GetStartingConfig e
                               (if kubeConfigFile \<noteq> [] then kubeConfigFile
                                else RecommendedHomeFile e) w of
                          Inl x \<Rightarrow> [ErrLine x] | Inr _ \<Rightarrow> [])
                     @ (case err of None \<Rightarrow> [] | Some x \<Rightarrow> [ErrLine x])
                     @ ys @ ?cacheErr"
    using ys err_all by blast
  show ?thesis
    apply (rule exI [of _ "println (JSONDoc ?c) w1"])
    apply (rule exI [of _ ?c])
    apply (rule exI [of _ "\<lparr>ExpirationTimestamp = Some (int (clock e) + 3600 * 1000000000),
                Token = [],
                ClientCertificateData = fst (b64_DecodeString (u_ClientCertificateData u)),
                ClientKeyData = fst (b64_DecodeString (u_ClientKeyData u))\<rparr>"])
    using main tail
    apply (simp add: time_Add_def time_Now_def)
    done
qed

theorem execCredentialCmd_cache_miss_witness:
  "\<exists>w' c st.
     execCredentialCmd (example_env 1000 [YAML (example_bundle ''YQ=='' ''YQ=='' ''Yg=='')])
         [] ''abc'' (example_world Map.empty) = (Returns (), w')
     \<and> Kind c = ''ExecCredential''
     \<and> Status c = Some st
     \<and> ExpirationTimestamp st = Some 3600000001000
     \<and> ClientKeyData st = ''b''
     \<and> ClientCertificateData st = ''a''
     \<and> stdout w' = [JSONDoc c]
     \<and> files w' example_path = Some (JSON (Some c))
     \<and> stderr w' = []"
proof -
  let ?e = "example_env 1000 [YAML (example_bundle ''YQ=='' ''YQ=='' ''Yg=='')]"
  have l: "fst (loadCachedKubeConfig ?e ''abc'' (example_world Map.empty)) = Returns (None, None)"
    by (simp add: run_defs)
  have f: "fst (fetchKubeConfigFromProvider ?e ''abc'' (example_world Map.empty))
             = Returns (example_bundle ''YQ=='' ''YQ=='' ''Yg=='')"
    by (simp add: example_fetch)
  have u: "kc_Users (example_bundle ''YQ=='' ''YQ=='' ''Yg=='')
             = \<lparr>u_Name = ''admin'', u_ClientCertificateData = ''YQ=='',
                u_ClientKeyData = ''Yg==''\<rparr> # []"
    by (simp add: example_bundle_def)
  have n: "faults ?e s q = None" for s q
    by (simp add: example_env_def)
  have p: "cachedKubeConfigPath ?e ''abc'' = example_path"
    by (simp add: run_defs)
  have t: "time_Add (time_Now ?e) 3600000000000 = 3600000001000"
    by (simp add: time_Add_def time_Now_def example_env_def)
  have o: "stdout (example_world Map.empty) = []" "stderr (example_world Map.empty) = []"
    by (simp_all add: example_world_def)
  have fe: "stderr (snd (fetchKubeConfigFromProvider ?e ''abc'' (example_world Map.empty))) = []"
    by (simp add: example_fetch) (simp add: example_world_def)
  show ?thesis
    using execCredentialCmd_cache_miss [OF l f u, of "[]"]
    by (simp add: n p t o fe example_GetStartingConfig decode_a decode_b)
qed

text \<open>
  Plugin mode with a client certificate and a client key that are not base64: the merge
  does not decode them, the command returns and the kubeconfig is written.
\<close>

theorem saveKubeconfigCmd_plugin_skips_client_decoding:
  "snd (b64_DecodeString ''%%%%'') = Some CorruptInputError
   \<and> saveKubeconfigCmd (example_env 1000 [YAML (example_bundle ''YQ=='' ''%%%%'' ''%%%%'')])
         [] ''abc'' True (example_world Map.empty)
     = (Returns (),
        (example_world Map.empty)
          \<lparr>requests :=
             [\<lparr>uri = ''/objects/paas/services/abc/renew_credentials'', method = MethodPatch\<rparr>,
              \<lparr>uri = ''/objects/paas/services/abc'', method = MethodGet\<rparr>],
           kubeconfig := example_plugin_config\<rparr>)"
  by (simp add: saveKubeconfigCmd_after_fetch
                  [OF example_prepare example_GetStartingConfig example_fetch]
                example_merge_plugin decode_percent)
     (simp add: ModifyConfig_def example_env_def example_world_def)

text \<open>
  C7, as the code has it. Once the kubeconfig is loaded and a bundle with a first cluster
  \<open>c\<close> and a first user \<open>u\<close> fetched: a certificate-authority field that does not decode
  makes the command exit with status 1 after printing the decoder's error, in both modes;
  in embedded mode so does a client certificate, and after it a client key, that does not
  decode; in plugin mode the merge succeeds whenever the certificate authority decodes,
  whatever the client certificate and key are. (The claim has plugin mode fail on them
  too.)
\<close>

theorem saveKubeconfigCmd_decode_errors:
  assumes "prepareKubeconfigFile e f w = (Returns g, w1)"
      and "GetStartingConfig e g w1 = Inr cur"
      and "fetchKubeConfigFromProvider e ident w1 = (Returns kc, w2)"
      and "kc_Clusters kc = c # cs"
      and "kc_Users kc = u # us"
  shows "(snd (b64_DecodeString (c_CertificateAuthorityData c)) = Some x \<longrightarrow>
            saveKubeconfigCmd e f ident p w = (Exits 1, eprintln (ErrLine x) w2))
       \<and> (snd (b64_DecodeString (c_CertificateAuthorityData c)) = None
            \<and> snd (b64_DecodeString (u_ClientCertificateData u)) = Some x \<longrightarrow>
            saveKubeconfigCmd e f ident False w = (Exits 1, eprintln (ErrLine x) w2))
       \<and> (snd (b64_DecodeString (c_CertificateAuthorityData c)) = None
            \<and> snd (b64_DecodeString (u_ClientCertificateData u)) = None
            \<and> snd (b64_DecodeString (u_ClientKeyData u)) = Some x \<longrightarrow>
            saveKubeconfigCmd e f ident False w = (Exits 1, eprintln (ErrLine x) w2))
       \<and> (snd (b64_DecodeString (c_CertificateAuthorityData c)) = None \<longrightarrow>
            (\<exists>cfg. mergeKubeConfig e ident True kc cur = Inr cfg))"
  using assms(4,5)
  by (auto simp add: saveKubeconfigCmd_after_fetch [OF assms(1-3)] mergeKubeConfig_def Let_def
        split: prod.splits option.splits)

theorem saveKubeconfigCmd_decode_errors_witness:
  "saveKubeconfigCmd (example_env 1000 [YAML (example_bundle ''%%%%'' ''YQ=='' ''Yg=='')])
       [] ''abc'' True (example_world Map.empty)
     = (Exits 1,
        eprintln (ErrLine CorruptInputError)
          ((example_world Map.empty)
             \<lparr>requests :=
                [\<lparr>uri = ''/objects/paas/services/abc/renew_credentials'', method = MethodPatch\<rparr>,
                 \<lparr>uri = ''/objects/paas/services/abc'', method = MethodGet\<rparr>]\<rparr>))
   \<and> saveKubeconfigCmd (example_env 1000 [YAML (example_bundle ''YQ=='' ''%%%%'' ''Yg=='')])
       [] ''abc'' False (example_world Map.empty)
     = (Exits 1,
        eprintln (ErrLine CorruptInputError)
          ((example_world Map.empty)
             \<lparr>requests :=
                [\<lparr>uri = ''/objects/paas/services/abc/renew_credentials'', method = MethodPatch\<rparr>,
                 \<lparr>uri = ''/objects/paas/services/abc'', method = MethodGet\<rparr>]\<rparr>))
   \<and> saveKubeconfigCmd (example_env 1000 [YAML (example_bundle ''YQ=='' ''YQ=='' ''%%%%'')])
       [] ''abc'' False (example_world Map.empty)
     = (Exits 1,
        eprintln (ErrLine CorruptInputError)
          ((example_world Map.empty)
             \<lparr>requests :=
                [\<lparr>uri = ''/objects/paas/services/abc/renew_credentials'', method = MethodPatch\<rparr>,
                 \<lparr>uri = ''/objects/paas/services/abc'', method = MethodGet\<rparr>]\<rparr>))
   \<and> (\<exists>cfg. mergeKubeConfig (example_env 1000 [YAML (example_bundle ''YQ=='' ''%%%%'' ''%%%%'')])
               ''abc'' True (example_bundle ''YQ=='' ''%%%%'' ''%%%%'') empty_Config = Inr cfg)"
proof -
  have cl: "kc_Clusters (example_bundle ca cert key)
              = \<lparr>c_Name = ''k8s'', c_Server = ''https://k8s.example:6443'',
                 c_CertificateAuthorityData = ca\<rparr> # []" for ca cert key
    by (simp add: example_bundle_def)
  have us: "kc_Users (example_bundle ca cert key)
              = \<lparr>u_Name = ''admin'', u_ClientCertificateData = cert, u_ClientKeyData = key\<rparr> # []"
    for ca cert key
    by (simp add: example_bundle_def)
  note th = saveKubeconfigCmd_decode_errors
              [OF example_prepare example_GetStartingConfig example_fetch cl us]
  have 1: "saveKubeconfigCmd (example_env 1000 [YAML (example_bundle ''%%%%'' ''YQ=='' ''Yg=='')])
       [] ''abc'' True (example_world Map.empty)
     = (Exits 1,
        eprintln (ErrLine CorruptInputError)
          ((example_world Map.empty)
             \<lparr>requests :=
                [\<lparr>uri = ''/objects/paas/services/abc/renew_credentials'', method = MethodPatch\<rparr>,
                 \<lparr>uri = ''/objects/paas/services/abc'', method = MethodGet\<rparr>]\<rparr>))"
    by (rule th [THEN conjunct1, THEN mp]) (simp add: decode_percent)
  have 2: "saveKubeconfigCmd (example_env 1000 [YAML (example_bundle ''YQ=='' ''%%%%'' ''Yg=='')])
       [] ''abc'' False (example_world Map.empty)
     = (Exits 1,
        eprintln (ErrLine CorruptInputError)
          ((example_world Map.empty)
             \<lparr>requests :=
                [\<lparr>uri = ''/objects/paas/services/abc/renew_credentials'', method = MethodPatch\<rparr>,
                 \<lparr>uri = ''/objects/paas/services/abc'', method = MethodGet\<rparr>]\<rparr>))"
    by (rule th [THEN conjunct2, THEN conjunct1, THEN mp]) (simp add: decode_percent decode_a)
  have 3: "saveKubeconfigCmd (example_env 1000 [YAML (example_bundle ''YQ=='' ''YQ=='' ''%%%%'')])
       [] ''abc'' False (example_world Map.empty)
     = (Exits 1,
        eprintln (ErrLine CorruptInputError)
          ((example_world Map.empty)
             \<lparr>requests :=
                [\<lparr>uri = ''/objects/paas/services/abc/renew_credentials'', method = MethodPatch\<rparr>,
                 \<lparr>uri = ''/objects/paas/services/abc'', method = MethodGet\<rparr>]\<rparr>))"
    by (rule th [THEN conjunct2, THEN conjunct2, THEN conjunct1, THEN mp])
       (simp add: decode_percent decode_a)
  have 4: "\<exists>cfg. mergeKubeConfig (example_env 1000 [YAML (example_bundle ''YQ=='' ''%%%%'' ''%%%%'')])
               ''abc'' True (example_bundle ''YQ=='' ''%%%%'' ''%%%%'') empty_Config = Inr cfg"
    by (rule th [THEN conjunct2, THEN conjunct2, THEN conjunct2, THEN mp])
       (simp add: decode_a)
  show ?thesis using 1 2 3 4 by simp
qed

text \<open>
  C8. Merging is idempotent: when merging a bundle into a kubeconfig succeeds with the
  kubeconfig \<open>cfg\<close>, merging the same bundle in the same mode into \<open>cfg\<close> succeeds with
  \<open>cfg\<close> again; and when save-kubeconfig returns twice in succession, with the same flags
  on the same machine (so that the provider hands out the same bundle), the kubeconfig on
  disk after the second run is the one after the first.
\<close>

theorem mergeKubeConfig_idempotent:
  "(mergeKubeConfig e ident p kc cur = Inr cfg \<longrightarrow> mergeKubeConfig e ident p kc cfg = Inr cfg)
   \<and> (saveKubeconfigCmd e f ident p w = (Returns (), w1)
        \<and> saveKubeconfigCmd e f ident p w1 = (Returns (), w2) \<longrightarrow>
      kubeconfig w2 = kubeconfig w1)"
proof (intro conjI impI)
  show idem: "mergeKubeConfig e ident p kc cur = Inr cfg \<Longrightarrow>
          mergeKubeConfig e ident p kc cfg = Inr cfg" for kc cur cfg
    by (auto simp add: mergeKubeConfig_def Let_def
          split: if_splits prod.splits option.splits sum.splits)
  assume runs: "saveKubeconfigCmd e f ident p w = (Returns (), w1)
        \<and> saveKubeconfigCmd e f ident p w1 = (Returns (), w2)"
  from runs saveKubeconfigCmd_Returns [of e f ident p w w1]
  obtain kc where f1: "fst (fetchKubeConfigFromProvider e ident w) = Returns kc"
      and m1: "mergeKubeConfig e ident p kc (kubeconfig w) = Inr (kubeconfig w1)"
    by auto
  from runs saveKubeconfigCmd_Returns [of e f ident p w1 w2]
  obtain kc' where f2: "fst (fetchKubeConfigFromProvider e ident w1) = Returns kc'"
      and m2: "mergeKubeConfig e ident p kc' (kubeconfig w1) = Inr (kubeconfig w2)"
    by auto
  have "kc' = kc"
    using f1 f2 fetch_result_indep [of e ident w w1] by simp
  with idem [OF m1] m2 show "kubeconfig w2 = kubeconfig w1"
    by simp
qed

theorem mergeKubeConfig_idempotent_witness:
  "mergeKubeConfig (example_env 1000 []) ''abc'' False (example_bundle ''YQ=='' ''YQ=='' ''Yg=='')
     example_embedded_config = Inr example_embedded_config
   \<and> kubeconfig (snd (saveKubeconfigCmd
         (example_env 1000 [YAML (example_bundle ''YQ=='' ''YQ=='' ''Yg=='')]) [] ''abc'' True
         (snd (saveKubeconfigCmd
            (example_env 1000 [YAML (example_bundle ''YQ=='' ''YQ=='' ''Yg=='')]) [] ''abc'' True
            (example_world Map.empty)))))
     = example_plugin_config"
proof -
  let ?e = "example_env 1000 [YAML (example_bundle ''YQ=='' ''YQ=='' ''Yg=='')]"
  let ?rs = "[\<lparr>uri = ''/objects/paas/services/abc/renew_credentials'', method = MethodPatch\<rparr>,
              \<lparr>uri = ''/objects/paas/services/abc'', method = MethodGet\<rparr>]"
  let ?w1 = "(example_world Map.empty)\<lparr>requests := ?rs, kubeconfig := example_plugin_config\<rparr>"
  let ?w2 = "(example_world Map.empty)\<lparr>requests := ?rs @ ?rs, kubeconfig := example_plugin_config\<rparr>"
  have r1: "saveKubeconfigCmd ?e [] ''abc'' True (example_world Map.empty) = (Returns (), ?w1)"
    by (simp add: saveKubeconfigCmd_after_fetch
                    [OF example_prepare example_GetStartingConfig example_fetch]
                  example_merge_plugin)
       (simp add: ModifyConfig_def example_env_def example_world_def)
  have m2: "mergeKubeConfig ?e ''abc'' True (example_bundle ''YQ=='' ''YQ=='' ''Yg=='')
              example_plugin_config = Inr example_plugin_config"
    by (rule mergeKubeConfig_idempotent [THEN conjunct1, THEN mp, OF example_merge_plugin])
  have p2: "prepareKubeconfigFile ?e [] ?w1 = (Returns ''/root/.kube/config'', ?w1)"
    by (simp add: prepareKubeconfigFile_def example_env_def)
  have l2: "GetStartingConfig ?e ''/root/.kube/config'' ?w1 = Inr example_plugin_config"
    by (simp add: GetStartingConfig_def example_env_def example_world_def)
  have f2: "fetchKubeConfigFromProvider ?e ''abc'' ?w1
              = (Returns (example_bundle ''YQ=='' ''YQ=='' ''Yg==''), ?w1\<lparr>requests := ?rs @ ?rs\<rparr>)"
    by (simp add: fetch_cases example_env_def example_world_def yaml_Unmarshal_def)
  have r2: "saveKubeconfigCmd ?e [] ''abc'' True ?w1 = (Returns (), ?w2)"
    by (simp add: saveKubeconfigCmd_after_fetch [OF p2 l2 f2] m2)
       (simp add: ModifyConfig_def example_env_def example_world_def)
  have a: "mergeKubeConfig (example_env 1000 []) ''abc'' False
             (example_bundle ''YQ=='' ''YQ=='' ''Yg=='') example_embedded_config
           = Inr example_embedded_config"
    by (rule mergeKubeConfig_idempotent [THEN conjunct1, THEN mp, OF example_merge_embedded])
  have b: "kubeconfig ?w2 = kubeconfig ?w1"
    by (rule mergeKubeConfig_idempotent
               [where e = ?e and f = "[]" and ident = "''abc''" and p = True
                  and w = "example_world Map.empty", THEN conjunct2, THEN mp])
       (simp add: r1 r2)
  show ?thesis
    using a b by (simp add: r1 r2)
qed

text \<open>
  C9. When the cache file of the cluster opens and decodes to a record with a status
  whose expiration timestamp is after the clock, the command returns, prints that record
  and nothing else on standard output, sends no request to the provider, and leaves the
  files as they are.
\<close>

theorem execCredentialCmd_cache_hit:
  assumes "os_Open e (cachedKubeConfigPath e clusterID) w = Inr (JSON (Some c))"
      and "Status c = Some st"
      and "ExpirationTimestamp st = Some t"
      and "time_Now e < t"
  shows "\<exists>w'. execCredentialCmd e kubeConfigFile clusterID w = (Returns (), w')
              \<and> stdout w' = stdout w @ [JSONDoc c]
              \<and> requests w' = requests w
              \<and> files w' = files w"
proof -
  have hit: "loadCachedKubeConfig e clusterID w = (Returns (Some c, None), w)"
    by (rule load_hit [OF assms])
  show ?thesis
    by (simp add: execCredentialCmd_def Let_def load_stderr hit ifErr_Fprintln_Stderr_def
          json_MarshalIndent_def println_def eprintln_def split: sum.splits)
qed

theorem execCredentialCmd_cache_hit_witness:
  "\<exists>w'. execCredentialCmd (example_env 5000 []) [] ''abc''
            (example_world
               [example_path \<mapsto> JSON (Some (example_credential (Some (example_status (Some 5001)))))])
          = (Returns (), w')
        \<and> stdout w' = [JSONDoc (example_credential (Some (example_status (Some 5001))))]
        \<and> requests w' = []
        \<and> files w'
           = [example_path \<mapsto> JSON (Some (example_credential (Some (example_status (Some 5001)))))]"
proof -
  let ?e = "example_env 5000 []"
  let ?c = "example_credential (Some (example_status (Some 5001)))"
  let ?w = "example_world [example_path \<mapsto> JSON (Some ?c)]"
  have o: "os_Open ?e (cachedKubeConfigPath ?e ''abc'') ?w = Inr (JSON (Some ?c))"
    by (simp add: run_defs)
  have s: "Status ?c = Some (example_status (Some 5001))"
    by (simp add: example_credential_def)
  have t: "ExpirationTimestamp (example_status (Some 5001)) = Some 5001"
    by (simp add: example_status_def)
  have lt: "time_Now ?e < 5001"
    by (simp add: time_Now_def example_env_def)
  show ?thesis
    using execCredentialCmd_cache_hit [OF o s t lt, of "[]"]
    by (simp add: example_world_def)
qed



end
